theory Spec2Isabelle
  imports Main
begin

section \<open>The invite endpoint \<open>src/pages/api/invite.ts\<close>\<close>

text \<open>
  The repository has one handler, \<open>GET\<close>. It reads three bindings of the runtime
  environment, three request headers, the origin of the request URL and two query
  parameters, the clock, the random UUID generator, the key-value namespace
  \<open>DISCORD_INVITES\<close> and the answer of the Discord API. The model below makes each of
  these an explicit input and returns, with the response, the key-value namespace as the
  handler leaves it and the chronological list of the external calls it made.

  Conventions of the embedding:
  \<^item> a header, a query parameter and an environment string are \<open>string option\<close>, \<open>None\<close>
    for JavaScript's \<open>null\<close>/\<open>undefined\<close>;
  \<^item> timestamps are \<open>int\<close>: \<open>Date.now()\<close> is an integer number of milliseconds far below
    \<open>2^53\<close>, where the arithmetic of the source is exact;
  \<^item> every response of the source carries the same \<open>Content-Type\<close> header, which is left
    out;
  \<^item> \<open>console\<close> output is not modelled, except that the two log lines which format a
    date (lines 84 and 176) can raise, and do so inside a \<open>try\<close> block.
\<close>

subsection \<open>Data\<close>

text \<open>The record cached under a key: the source's \<open>inviteData\<close> (lines 157-162) and the
  type the source casts \<open>cachedData\<close> to (line 77).\<close>

record invite =
  uuid :: string
  code :: string
  expiresAt :: int
  createdAt :: int

text \<open>The JSON bodies the handler serialises: the success body of lines 86-92 and 179-185,
  and the error body \<open>{ error, details? }\<close>.\<close>

datatype body =
    InviteBody string string int bool int
  | ErrorBody string "string option"

record response =
  status :: int
  body :: body

text \<open>The key-value namespace: its contents, and whether each of its three operations
  raises. \<open>KV.get(key, 'json')\<close> raises when the store is unreachable or the stored text is
  not JSON; it returns \<open>null\<close> for an absent key.\<close>

record kv_namespace =
  entries :: "string \<Rightarrow> invite option"
  get_throws :: bool
  delete_throws :: bool
  put_throws :: bool

datatype 'a outcome = Throws | Returns 'a

definition kv_get :: "kv_namespace \<Rightarrow> string \<Rightarrow> invite option outcome" where
  "kv_get k key = (if get_throws k then Throws else Returns (entries k key))"

definition kv_delete :: "kv_namespace \<Rightarrow> string \<Rightarrow> kv_namespace outcome" where
  "kv_delete k key =
     (if delete_throws k then Throws
      else Returns (k\<lparr>entries := (entries k)(key := None)\<rparr>))"

definition kv_put :: "kv_namespace \<Rightarrow> string \<Rightarrow> invite \<Rightarrow> kv_namespace outcome" where
  "kv_put k key v =
     (if put_throws k then Throws
      else Returns (k\<lparr>entries := (entries k)(key \<mapsto> v)\<rparr>))"

record env =
  DISCORD_BOT_TOKEN :: "string option"
  DISCORD_CHANNEL_ID :: "string option"
  DISCORD_INVITES :: "kv_namespace option"

record request =
  Origin :: "string option"
  Referer :: "string option"
  User_Agent :: "string option"
  url_origin :: string
  uuid_param :: "string option"
  email_param :: "string option"

text \<open>What \<open>response.json()\<close> gives on the Discord answer: it raises on a body that is not
  JSON (and reading \<open>code\<close> of a \<open>null\<close> body raises into the same \<open>catch\<close>), or it gives
  a value whose \<open>code\<close> field is a string or is missing (the source types the value as
  \<open>{ code: string }\<close>).\<close>

datatype json_result = JsonThrows | JsonObject "string option"

text \<open>The answer of \<open>fetch\<close>: the fields \<open>ok\<close> and \<open>status\<close>, and what the two ways of
  reading the body give (\<open>response.text()\<close> raises when the body cannot be read).\<close>

record discord_response =
  resp_ok :: bool
  resp_status :: int
  resp_text :: "string outcome"
  resp_json :: json_result

datatype fetch_outcome = FetchThrows | FetchResponse discord_response

record world =
  now :: int
  randomUUID :: string
  fetch_result :: fetch_outcome

text \<open>The external calls of one request, in the order they happen. \<open>KvPut\<close> carries the key,
  the stored record and the \<open>expirationTtl\<close>; \<open>DiscordCreateInvite\<close> carries the channel id
  and the bot token of the call.\<close>

datatype event =
    KvGet string
  | KvDelete string
  | KvPut string invite int
  | RandomUUID
  | DiscordCreateInvite string string

record state =
  kv :: "kv_namespace option"
  trace :: "event list"

definition log :: "event \<Rightarrow> state \<Rightarrow> state" where
  "log e s = s\<lparr>trace := trace s @ [e]\<rparr>"

subsection \<open>JavaScript strings\<close>

text \<open>A value of type \<open>string | null\<close> is truthy when it is a non-empty string.\<close>

fun truthy :: "string option \<Rightarrow> bool" where
  "truthy None = False"
| "truthy (Some v) = (v \<noteq> [])"

definition startsWith :: "string \<Rightarrow> string \<Rightarrow> bool" where
  "startsWith s p = (take (length p) s = p)"

text \<open>\<open>/p/i.test(s)\<close> for a pattern \<open>p\<close> of lower-case ASCII letters and \<open>-\<close>: \<open>p\<close> occurs
  in \<open>s\<close> with ASCII case ignored (without the \<open>u\<close> flag a character outside ASCII never
  matches an ASCII letter).\<close>

definition toLowerASCII :: "char \<Rightarrow> char" where
  "toLowerASCII c =
     (if (65::nat) \<le> of_char c \<and> of_char c \<le> (90::nat)
      then char_of (of_char c + (32::nat)) else c)"

fun occurs_in :: "string \<Rightarrow> string \<Rightarrow> bool" where
  "occurs_in [] p = (p = [])"
| "occurs_in (c # cs) p = (startsWith (c # cs) p \<or> occurs_in cs p)"

definition test_i :: "string \<Rightarrow> string \<Rightarrow> bool" where
  "test_i p s = occurs_in (map toLowerASCII s) p"

definition botPatterns :: "string list" where
  "botPatterns =
     [''bot'', ''crawler'', ''spider'', ''scraper'', ''curl'', ''wget'', ''python'',
      ''go-http'', ''java'']"

subsection \<open>JavaScript dates\<close>

text \<open>\<open>new Date(t).toISOString()\<close> raises a \<open>RangeError\<close> when \<open>t\<close> is not a time value,
  that is, when it lies more than \<open>8.64e15\<close> ms from the epoch. \<open>Date.now()\<close> is a time
  value, and so is every \<open>expiresAt\<close> the handler computes while the clock is more than two
  minutes before the end of that range.\<close>

definition time_value :: "int \<Rightarrow> bool" where
  "time_value t = (- 8640000000000000 \<le> t \<and> t \<le> 8640000000000000)"

subsection \<open>The Response constructor\<close>

text \<open>\<open>new Response(body, { status })\<close> with a body raises a \<open>RangeError\<close> for a status
  outside 200..599 and a \<open>TypeError\<close> for a status that allows no body (of those in range:
  204, 205 and 304). The handler's own statuses 200, 400, 403 and 500 are accepted; the
  status it copies from Discord's answer at line 142 need not be.\<close>

definition response_init_ok :: "int \<Rightarrow> bool" where
  "response_init_ok st =
     (200 \<le> st \<and> st \<le> 599 \<and> st \<noteq> 204 \<and> st \<noteq> 205 \<and> st \<noteq> 304)"

subsection \<open>The boundary filters (lines 11-62)\<close>

definition cors_violation :: "request \<Rightarrow> bool" where
  "cors_violation req =
     ((truthy (Origin req) \<and> Origin req \<noteq> Some (url_origin req)) \<or>
      (case Referer req of
         None \<Rightarrow> False
       | Some referer \<Rightarrow> referer \<noteq> [] \<and> \<not> startsWith referer (url_origin req)))"

definition config_missing :: "env \<Rightarrow> bool" where
  "config_missing e = (\<not> truthy (DISCORD_BOT_TOKEN e) \<or> \<not> truthy (DISCORD_CHANNEL_ID e))"

definition bot_user_agent :: "request \<Rightarrow> bool" where
  "bot_user_agent req =
     (let userAgent = (case User_Agent req of None \<Rightarrow> [] | Some ua \<Rightarrow> ua)
      in list_ex (\<lambda>pattern. test_i pattern userAgent) botPatterns)"

definition forbidden :: response where
  "forbidden = \<lparr>status = 403, body = ErrorBody ''Forbidden'' None\<rparr>"

definition missing_configuration :: response where
  "missing_configuration =
     \<lparr>status = 500, body = ErrorBody ''Missing Discord bot configuration'' None\<rparr>"

definition invalid_request :: "int \<Rightarrow> response" where
  "invalid_request st = \<lparr>status = st, body = ErrorBody ''Invalid request'' None\<rparr>"

text \<open>The four checks in the order of the source; \<open>None\<close> when the request passes all of
  them and reaches line 64.\<close>

definition boundary :: "env \<Rightarrow> request \<Rightarrow> response option" where
  "boundary e req =
     (if cors_violation req then Some forbidden
      else if config_missing e then Some missing_configuration
      else if truthy (email_param req) then Some (invalid_request 400)
      else if bot_user_agent req then Some (invalid_request 403)
      else None)"

subsection \<open>Cache consultation (lines 66-109)\<close>

definition kvKey :: "string \<Rightarrow> string" where
  "kvKey u = ''discord:invite:'' @ u"

definition cached_response :: "invite \<Rightarrow> int \<Rightarrow> response" where
  "cached_response cachedInvite t =
     \<lparr>status = 200,
      body = InviteBody (uuid cachedInvite) (code cachedInvite) (expiresAt cachedInvite)
               True t\<rparr>"

text \<open>The block guarded by \<open>if (uuid && KV)\<close>. It answers with the cached record when that
  has more than 10000 ms left; otherwise it returns no response and the handler goes on to
  issue. An exception of \<open>KV.get\<close> is caught at line 106, one of \<open>KV.delete\<close> at line 101.
  The log line 84 formats \<open>expiresAt\<close> as a date before the cached record is returned: when
  that raises, the \<open>catch\<close> of line 106 takes over and the handler goes on to issue.\<close>

definition consult_cache :: "world \<Rightarrow> string option \<Rightarrow> state \<Rightarrow> response option \<times> state" where
  "consult_cache w clientUuid s =
     (case (clientUuid, kv s) of
        (Some u, Some k) \<Rightarrow>
          if u = [] then (None, s)
          else
            (let key = kvKey u; s1 = log (KvGet key) s in
             case kv_get k key of
               Throws \<Rightarrow> (None, s1)
             | Returns None \<Rightarrow> (None, s1)
             | Returns (Some cachedInvite) \<Rightarrow>
                 (let timeRemaining = expiresAt cachedInvite - now w;
                      isValid = (timeRemaining > 10000)
                  in if isValid then
                       (if time_value (expiresAt cachedInvite)
                        then (Some (cached_response cachedInvite (now w)), s1)
                        else (None, s1))
                     else
                       (let s2 = log (KvDelete key) s1 in
                        case kv_delete k key of
                          Throws \<Rightarrow> (None, s2)
                        | Returns k' \<Rightarrow> (None, s2\<lparr>kv := Some k'\<rparr>))))
      | _ \<Rightarrow> (None, s))"

subsection \<open>Issuance (lines 111-194)\<close>

definition internal_server_error :: response where
  "internal_server_error = \<lparr>status = 500, body = ErrorBody ''Internal server error'' None\<rparr>"

definition upstream_failure :: "int \<Rightarrow> string \<Rightarrow> response" where
  "upstream_failure st error =
     \<lparr>status = st, body = ErrorBody ''Failed to generate invite'' (Some error)\<rparr>"

definition invalid_upstream_response :: response where
  "invalid_upstream_response =
     \<lparr>status = 500, body = ErrorBody ''Invalid response from Discord API'' None\<rparr>"

text \<open>Lines 164-174: the write is skipped without a binding, and an exception of \<open>KV.put\<close>
  is caught at line 171.\<close>

definition store_invite :: "string \<Rightarrow> invite \<Rightarrow> int \<Rightarrow> state \<Rightarrow> state" where
  "store_invite u inviteData t s =
     (case kv s of
        None \<Rightarrow> s
      | Some k \<Rightarrow>
          (let ttlSeconds = (expiresAt inviteData - t) div 1000;
               key = kvKey u;
               s1 = log (KvPut key inviteData ttlSeconds) s
           in case kv_put k key inviteData of
                Throws \<Rightarrow> s1
              | Returns k' \<Rightarrow> s1\<lparr>kv := Some k'\<rparr>))"

text \<open>Lines 111-114: the identifier of the request, or a generated one.\<close>

definition resolve_uuid :: "world \<Rightarrow> string option \<Rightarrow> state \<Rightarrow> string \<times> state" where
  "resolve_uuid w clientUuid s =
     (case clientUuid of
        None \<Rightarrow> (randomUUID w, log RandomUUID s)
      | Some u \<Rightarrow> if u = [] then (randomUUID w, log RandomUUID s) else (u, s))"

text \<open>The call of lines 120-135, with the channel id of the URL and the bot token of the
  \<open>Authorization\<close> header (both are present when the call is reached: line 25).\<close>

definition discord_call :: "env \<Rightarrow> event" where
  "discord_call e =
     DiscordCreateInvite
       (case DISCORD_CHANNEL_ID e of None \<Rightarrow> [] | Some c \<Rightarrow> c)
       (case DISCORD_BOT_TOKEN e of None \<Rightarrow> [] | Some t \<Rightarrow> t)"

text \<open>The \<open>try\<close> block of lines 117-194: an exception of \<open>fetch\<close>, of the
  \<open>Response\<close> constructor at line 140, of \<open>response.json()\<close> or of the log line 176 (which
  formats \<open>expiresAt\<close> as a date, after the cache write) ends in the \<open>catch\<close> of
  line 188.\<close>

definition issue :: "env \<Rightarrow> world \<Rightarrow> string \<Rightarrow> state \<Rightarrow> response \<times> state" where
  "issue e w u s =
     (let s1 = log (discord_call e) s
      in case fetch_result w of
           FetchThrows \<Rightarrow> (internal_server_error, s1)
         | FetchResponse r \<Rightarrow>
             if \<not> resp_ok r then
               (case resp_text r of
                  Throws \<Rightarrow> (internal_server_error, s1)
                | Returns error \<Rightarrow>
                    if response_init_ok (resp_status r)
                    then (upstream_failure (resp_status r) error, s1)
                    else (internal_server_error, s1))
             else
               (case resp_json r of
                  JsonThrows \<Rightarrow> (internal_server_error, s1)
                | JsonObject data_code \<Rightarrow>
                    (let expires = now w + 120 * 1000 in
                     case data_code of
                       None \<Rightarrow> (invalid_upstream_response, s1)
                     | Some c \<Rightarrow>
                         if c = [] then (invalid_upstream_response, s1)
                         else
                           (let inviteData =
                                  \<lparr>uuid = u, code = c, expiresAt = expires,
                                   createdAt = now w\<rparr>;
                                s2 = store_invite u inviteData (now w) s1
                            in if time_value expires
                               then (\<lparr>status = 200,
                                      body = InviteBody u c expires False (now w)\<rparr>, s2)
                               else (internal_server_error, s2)))))"

subsection \<open>The handler\<close>

definition GET :: "env \<Rightarrow> request \<Rightarrow> world \<Rightarrow> response \<times> state" where
  "GET e req w =
     (let s0 = \<lparr>kv = DISCORD_INVITES e, trace = []\<rparr> in
      case boundary e req of
        Some rejection \<Rightarrow> (rejection, s0)
      | None \<Rightarrow>
          (case consult_cache w (uuid_param req) s0 of
             (Some cached, s1) \<Rightarrow> (cached, s1)
           | (None, s1) \<Rightarrow>
               (case resolve_uuid w (uuid_param req) s1 of
                  (u, s2) \<Rightarrow> issue e w u s2)))"

text \<open>A request is on the issuance path when it passes the boundary filters and the cache
  consultation does not answer it.\<close>

definition issuance_path :: "env \<Rightarrow> request \<Rightarrow> world \<Rightarrow> bool" where
  "issuance_path e req w =
     (boundary e req = None \<and>
      fst (consult_cache w (uuid_param req) \<lparr>kv = DISCORD_INVITES e, trace = []\<rparr>) = None)"

text \<open>The identifier a request is issued under (lines 68 and 112-114).\<close>

definition issued_uuid :: "world \<Rightarrow> request \<Rightarrow> string" where
  "issued_uuid w req =
     (case uuid_param req of
        None \<Rightarrow> randomUUID w
      | Some u \<Rightarrow> if u = [] then randomUUID w else u)"

subsection \<open>Concrete runs\<close>

text \<open>A browser request from the site's own page, a cache with one record under the key of
  that request, a configured environment, and the answers of the outside world. The record
  expires at 100000 ms: it is valid before 90000 ms and stale from then on.\<close>

definition site_request :: request where
  "site_request =
     \<lparr>Origin = Some ''https://strands.gg'', Referer = Some ''https://strands.gg/discord'',
      User_Agent = Some ''Mozilla/5.0 (X11; Linux x86_64) Firefox/128.0'',
      url_origin = ''https://strands.gg'', uuid_param = Some ''u-1'', email_param = None\<rparr>"

definition old_invite :: invite where
  "old_invite = \<lparr>uuid = ''u-1'', code = ''abc'', expiresAt = 100000, createdAt = -20000\<rparr>"

definition one_entry :: "string \<Rightarrow> invite option" where
  "one_entry = (\<lambda>key. if key = ''discord:invite:u-1'' then Some old_invite else None)"

definition healthy_kv :: kv_namespace where
  "healthy_kv =
     \<lparr>entries = one_entry, get_throws = False, delete_throws = False, put_throws = False\<rparr>"

definition broken_kv :: kv_namespace where
  "broken_kv =
     \<lparr>entries = one_entry, get_throws = True, delete_throws = True, put_throws = True\<rparr>"

definition site_env :: "kv_namespace option \<Rightarrow> env" where
  "site_env binding =
     \<lparr>DISCORD_BOT_TOKEN = Some ''token'', DISCORD_CHANNEL_ID = Some ''42'',
      DISCORD_INVITES = binding\<rparr>"

definition discord_issues :: "string \<Rightarrow> fetch_outcome" where
  "discord_issues c =
     FetchResponse \<lparr>resp_ok = True, resp_status = 200, resp_text = Returns [],
                    resp_json = JsonObject (Some c)\<rparr>"

definition discord_rate_limited :: discord_response where
  "discord_rate_limited =
     \<lparr>resp_ok = False, resp_status = 429, resp_text = Returns ''rate limited'',
      resp_json = JsonObject None\<rparr>"

definition discord_no_code :: discord_response where
  "discord_no_code =
     \<lparr>resp_ok = True, resp_status = 200, resp_text = Returns ''{}'',
      resp_json = JsonObject None\<rparr>"

definition at_time :: "int \<Rightarrow> fetch_outcome \<Rightarrow> world" where
  "at_time t f = \<lparr>now = t, randomUUID = ''r-9'', fetch_result = f\<rparr>"

section \<open>Properties\<close>

subsection \<open>Facts about the concrete runs\<close>

lemma site_request_simps [simp]:
  "uuid_param site_request = Some ''u-1''"
  "uuid_param (site_request\<lparr>uuid_param := p\<rparr>) = p"
  by (simp_all add: site_request_def)

lemma site_env_simps [simp]:
  "DISCORD_INVITES (site_env b) = b"
  "DISCORD_BOT_TOKEN (site_env b) = Some ''token''"
  "DISCORD_CHANNEL_ID (site_env b) = Some ''42''"
  "(site_env b)\<lparr>DISCORD_INVITES := b'\<rparr> = site_env b'"
  by (simp_all add: site_env_def)

lemma kv_examples_simps [simp]:
  "get_throws healthy_kv = False" "delete_throws healthy_kv = False"
  "put_throws healthy_kv = False" "entries healthy_kv = one_entry"
  "get_throws broken_kv = True" "delete_throws broken_kv = True"
  "put_throws broken_kv = True" "entries broken_kv = one_entry"
  by (simp_all add: healthy_kv_def broken_kv_def)

lemma one_entry_simps [simp]:
  "one_entry (kvKey ''u-1'') = Some old_invite"
  "one_entry ''discord:invite:u-1'' = Some old_invite"
  by (simp_all add: one_entry_def kvKey_def)

lemma old_invite_simps [simp]:
  "uuid old_invite = ''u-1''" "code old_invite = ''abc''"
  "expiresAt old_invite = 100000" "createdAt old_invite = -20000"
  by (simp_all add: old_invite_def)

lemma at_time_simps [simp]:
  "now (at_time t f) = t" "randomUUID (at_time t f) = ''r-9''"
  "fetch_result (at_time t f) = f"
  by (simp_all add: at_time_def)

lemma site_request_not_bot: "\<not> bot_user_agent (site_request\<lparr>uuid_param := p\<rparr>)"
  by (simp add: site_request_def bot_user_agent_def botPatterns_def test_i_def
      toLowerASCII_def startsWith_def)

lemma site_request_same_origin: "\<not> cors_violation (site_request\<lparr>uuid_param := p\<rparr>)"
  by (simp add: site_request_def cors_violation_def startsWith_def)

lemma site_env_configured [simp]: "\<not> config_missing (site_env b)"
  by (simp add: config_missing_def)

lemma boundary_site_any [simp]:
  "boundary (site_env b) (site_request\<lparr>uuid_param := p\<rparr>) = None"
  by (simp add: boundary_def site_request_not_bot site_request_same_origin)
    (simp add: site_request_def)

lemma boundary_site [simp]: "boundary (site_env b) site_request = None"
  using boundary_site_any [of b "Some ''u-1''"] by (simp add: site_request_def)

subsection \<open>Facts about the stages\<close>

lemma boundary_binding: "boundary (e\<lparr>DISCORD_INVITES := b\<rparr>) req = boundary e req"
  by (simp add: boundary_def config_missing_def)

lemma consult_cache_hit:
  assumes "u \<noteq> []" and "kv s = Some k" and "\<not> get_throws k"
    and "entries k (kvKey u) = Some r" and "expiresAt r - now w > 10000"
    and "time_value (expiresAt r)"
  shows "consult_cache w (Some u) s
           = (Some (cached_response r (now w)), log (KvGet (kvKey u)) s)"
  using assms by (simp add: consult_cache_def kv_get_def Let_def)

lemma GET_rejected:
  "boundary e req = Some r \<Longrightarrow> GET e req w = (r, \<lparr>kv = DISCORD_INVITES e, trace = []\<rparr>)"
  by (simp add: GET_def)

lemma GET_issuance:
  assumes "issuance_path e req w"
  shows "GET e req w =
           (let s1 = snd (consult_cache w (uuid_param req)
                            \<lparr>kv = DISCORD_INVITES e, trace = []\<rparr>)
            in issue e w (issued_uuid w req) (snd (resolve_uuid w (uuid_param req) s1)))"
  using assms
  by (auto simp add: GET_def issuance_path_def issued_uuid_def resolve_uuid_def Let_def
      split: prod.splits option.splits)


text \<open>The cache consultation leaves the store as it was or with the request's key deleted,
  and makes no other calls than one get and at most one delete of that key.\<close>

lemma consult_cache_effect:
  assumes "consult_cache w p s = (r, s')"
  shows "(kv s' = kv s \<or>
          (\<exists>k u. kv s = Some k \<and> p = Some u \<and> KvDelete (kvKey u) \<in> set (trace s') \<and>
                 kv s' = Some (k\<lparr>entries := (entries k)(kvKey u := None)\<rparr>))) \<and>
         (\<exists>evs. trace s' = trace s @ evs \<and>
                (\<forall>ev \<in> set evs. \<exists>u. p = Some u \<and> u \<noteq> [] \<and> kv s \<noteq> None \<and>
                                   (ev = KvGet (kvKey u) \<or> ev = KvDelete (kvKey u))))"
  using assms
  by (auto simp add: consult_cache_def kv_get_def kv_delete_def Let_def log_def
      split: option.splits if_splits outcome.splits)

lemma resolve_uuid_snd:
  "snd (resolve_uuid w p s) = (if truthy p then s else log RandomUUID s)"
  by (simp add: resolve_uuid_def split: option.splits)

lemma issue_success:
  assumes "fetch_result w = FetchResponse d" and "resp_ok d"
    and "resp_json d = JsonObject (Some c)" and "c \<noteq> []"
    and "time_value (now w + 120000)"
  shows "issue e w u s =
           (\<lparr>status = 200, body = InviteBody u c (now w + 120000) False (now w)\<rparr>,
            store_invite u \<lparr>uuid = u, code = c, expiresAt = now w + 120000,
                            createdAt = now w\<rparr> (now w) (log (discord_call e) s))"
  using assms by (simp add: issue_def time_value_def Let_def)

lemma issue_no_store:
  assumes "fetch_result w = FetchResponse d"
    and "\<not> resp_ok d \<or> resp_json d = JsonObject None"
  shows "snd (issue e w u s) = log (discord_call e) s"
  using assms by (auto simp add: issue_def Let_def split: outcome.splits)

lemma consult_cache_not_supplied:
  "\<not> truthy p \<Longrightarrow> consult_cache w p s = (None, s)"
  by (cases p) (auto simp add: consult_cache_def split: option.splits)

text \<open>The state after the issuance block: the Discord call is logged, and on the success
  path the record of lines 157-162 is handed to the cache write.\<close>

lemma issue_state:
  "snd (issue e w u s) = log (discord_call e) s \<or>
   (\<exists>c. snd (issue e w u s) =
          store_invite u \<lparr>uuid = u, code = c, expiresAt = now w + 120000, createdAt = now w\<rparr>
            (now w) (log (discord_call e) s))"
  by (auto simp add: issue_def Let_def
      split: fetch_outcome.splits json_result.splits option.splits outcome.splits)

lemma store_invite_trace:
  assumes "expiresAt v = t + 120000"
  shows "trace (store_invite u v t s) = trace s \<or>
         (kv s \<noteq> None \<and> trace (store_invite u v t s) = trace s @ [KvPut (kvKey u) v 120])"
  using assms
  by (cases "kv s") (simp_all add: store_invite_def kv_put_def log_def Let_def)

lemma store_invite_kv:
  "kv (store_invite u v t s) = kv s \<or>
   (\<exists>k. kv s = Some k \<and> \<not> put_throws k \<and>
        trace (store_invite u v t s) \<noteq> trace s \<and>
        kv (store_invite u v t s) = Some (k\<lparr>entries := (entries k)(kvKey u \<mapsto> v)\<rparr>))"
  by (cases "kv s") (simp_all add: store_invite_def kv_put_def log_def Let_def)

lemma issue_trace:
  "\<exists>evs. trace (snd (issue e w u s)) = trace s @ discord_call e # evs \<and>
         (\<forall>ev \<in> set evs. \<exists>v. ev = KvPut (kvKey u) v 120 \<and> uuid v = u \<and>
              createdAt v = now w \<and> expiresAt v = now w + 120000 \<and> kv s \<noteq> None)"
proof -
  from issue_state [of e w u s] show ?thesis
  proof
    assume "snd (issue e w u s) = log (discord_call e) s"
    then show ?thesis by (simp add: log_def)
  next
    assume "\<exists>c. snd (issue e w u s) =
      store_invite u \<lparr>uuid = u, code = c, expiresAt = now w + 120000, createdAt = now w\<rparr>
        (now w) (log (discord_call e) s)"
    then obtain c where st: "snd (issue e w u s) =
      store_invite u \<lparr>uuid = u, code = c, expiresAt = now w + 120000, createdAt = now w\<rparr>
        (now w) (log (discord_call e) s)" ..
    let ?v = "\<lparr>uuid = u, code = c, expiresAt = now w + 120000, createdAt = now w\<rparr>"
    from store_invite_trace [of ?v "now w" u "log (discord_call e) s"]
    show ?thesis
      by (auto simp add: st log_def)
  qed
qed


lemma issuance_path_store:
  assumes "issuance_path e req w"
  shows "kv (snd (resolve_uuid w (uuid_param req)
                    (snd (consult_cache w (uuid_param req)
                            \<lparr>kv = DISCORD_INVITES e, trace = []\<rparr>)))) = DISCORD_INVITES e \<or>
         (\<exists>k u. DISCORD_INVITES e = Some k \<and> uuid_param req = Some u \<and>
                kv (snd (resolve_uuid w (uuid_param req)
                           (snd (consult_cache w (uuid_param req)
                                   \<lparr>kv = DISCORD_INVITES e, trace = []\<rparr>)))) =
                  Some (k\<lparr>entries := (entries k)(kvKey u := None)\<rparr>))"
proof -
  let ?s0 = "\<lparr>kv = DISCORD_INVITES e, trace = []\<rparr>"
  obtain r s1 where cc: "consult_cache w (uuid_param req) ?s0 = (r, s1)"
    by (cases "consult_cache w (uuid_param req) ?s0")
  from consult_cache_effect [OF cc]
  have "kv s1 = DISCORD_INVITES e \<or>
        (\<exists>k u. DISCORD_INVITES e = Some k \<and> uuid_param req = Some u \<and>
               kv s1 = Some (k\<lparr>entries := (entries k)(kvKey u := None)\<rparr>))"
    by auto
  then show ?thesis
    by (simp add: cc resolve_uuid_snd log_def)
qed

lemma consult_cache_no_put:
  "KvPut key v t \<notin> set (trace (snd (consult_cache w p \<lparr>kv = b, trace = []\<rparr>)))"
proof -
  obtain r s1 where cc: "consult_cache w p \<lparr>kv = b, trace = []\<rparr> = (r, s1)"
    by (cases "consult_cache w p \<lparr>kv = b, trace = []\<rparr>")
  from consult_cache_effect [OF cc] show ?thesis
    by (auto simp add: cc)
qed

lemma consult_cache_outage:
  assumes "kv s = Some k" and "get_throws k"
  shows "fst (consult_cache w p s) = None \<and> kv (snd (consult_cache w p s)) = Some k"
  using assms
  by (auto simp add: consult_cache_def kv_get_def log_def Let_def split: option.splits)

lemma consult_cache_unbound:
  "kv s = None \<Longrightarrow> consult_cache w p s = (None, s)"
  by (auto simp add: consult_cache_def split: option.splits)

lemma issue_response:
  "fst (issue e w u s) = fst (issue e' w u s')"
  by (simp add: issue_def Let_def
      split: fetch_outcome.splits json_result.splits option.splits outcome.splits)

lemma issue_store_outage:
  assumes "kv s = Some k" and "put_throws k"
  shows "kv (snd (issue e w u s)) = Some k"
  using assms issue_state [of e w u s]
  by (auto simp add: store_invite_def kv_put_def log_def Let_def)

lemma issue_calls_discord: "discord_call e \<in> set (trace (snd (issue e w u s)))"
  using issue_trace [of e w u s] by auto


lemma issue_put:
  assumes "KvPut key v t \<in> set (trace (snd (issue e w u s)))"
    and "KvPut key v t \<notin> set (trace s)"
  shows "uuid v = u \<and> createdAt v = now w \<and> expiresAt v = now w + 120000 \<and>
         t = 120 \<and> key = kvKey u \<and>
         (\<forall>k'. kv (snd (issue e w u s)) = Some k' \<and> \<not> put_throws k'
                 \<longrightarrow> entries k' key = Some v)"
proof -
  from issue_state [of e w u s] show ?thesis
  proof
    assume "snd (issue e w u s) = log (discord_call e) s"
    with assms show ?thesis by (simp add: log_def discord_call_def)
  next
    assume "\<exists>c. snd (issue e w u s) =
      store_invite u \<lparr>uuid = u, code = c, expiresAt = now w + 120000, createdAt = now w\<rparr>
        (now w) (log (discord_call e) s)"
    then obtain c where st: "snd (issue e w u s) =
      store_invite u \<lparr>uuid = u, code = c, expiresAt = now w + 120000, createdAt = now w\<rparr>
        (now w) (log (discord_call e) s)" ..
    let ?v = "\<lparr>uuid = u, code = c, expiresAt = now w + 120000, createdAt = now w\<rparr>"
    let ?s1 = "log (discord_call e) s"
    have tr: "trace (store_invite u ?v (now w) ?s1) = trace ?s1 @ [KvPut (kvKey u) ?v 120]"
      using store_invite_trace [of ?v "now w" u ?s1] assms
      by (auto simp add: st log_def discord_call_def)
    then have v: "v = ?v" "t = 120" "key = kvKey u"
      using assms by (auto simp add: st log_def discord_call_def)
    have "\<forall>k'. kv (store_invite u ?v (now w) ?s1) = Some k' \<and> \<not> put_throws k'
            \<longrightarrow> entries k' (kvKey u) = Some ?v"
      by (cases "kv s") (auto simp add: store_invite_def kv_put_def log_def Let_def)
    with v show ?thesis by (simp add: st)
  qed
qed

lemma GET_not_issuance:
  assumes "\<not> issuance_path e req w"
  shows "snd (GET e req w) = \<lparr>kv = DISCORD_INVITES e, trace = []\<rparr> \<or>
         snd (GET e req w) =
           snd (consult_cache w (uuid_param req) \<lparr>kv = DISCORD_INVITES e, trace = []\<rparr>)"
proof (cases "boundary e req")
  case (Some r)
  then show ?thesis by (simp add: GET_rejected)
next
  case None
  let ?s0 = "\<lparr>kv = DISCORD_INVITES e, trace = []\<rparr>"
  obtain r s1 where cc: "consult_cache w (uuid_param req) ?s0 = (r, s1)"
    by (cases "consult_cache w (uuid_param req) ?s0")
  with None assms obtain c where "r = Some c"
    by (auto simp add: issuance_path_def)
  with None cc have "GET e req w = (c, s1)"
    by (simp add: GET_def)
  with cc show ?thesis by simp
qed

lemma issue_response_cases:
  "fst (issue e w u s) = internal_server_error \<or>
   fst (issue e w u s) = invalid_upstream_response \<or>
   (\<exists>st error. fst (issue e w u s) = upstream_failure st error) \<or>
   (\<exists>c. fst (issue e w u s) =
          \<lparr>status = 200, body = InviteBody u c (now w + 120000) False (now w)\<rparr>)"
  by (auto simp add: issue_def Let_def
      split: fetch_outcome.splits json_result.splits option.splits outcome.splits)

lemma issue_not_boundary_response:
  "fst (issue e w u s) \<noteq> forbidden" "fst (issue e w u s) \<noteq> missing_configuration"
  using issue_response_cases [of e w u s]
  by (auto simp add: forbidden_def missing_configuration_def internal_server_error_def
      invalid_upstream_response_def upstream_failure_def)

lemma consult_cache_response:
  "fst (consult_cache w p s) = Some c \<Longrightarrow> \<exists>r t. c = cached_response r t"
  by (auto simp add: consult_cache_def kv_get_def kv_delete_def Let_def
      split: option.splits if_splits outcome.splits)

lemma GET_forbidden_iff:
  "fst (GET e req w) = forbidden \<longleftrightarrow> cors_violation req"
proof (cases "boundary e req")
  case (Some r)
  then show ?thesis
    by (auto simp add: GET_rejected boundary_def forbidden_def missing_configuration_def
        invalid_request_def split: if_splits)
next
  case None
  let ?s0 = "\<lparr>kv = DISCORD_INVITES e, trace = []\<rparr>"
  from None have nv: "\<not> cors_violation req"
    by (simp add: boundary_def split: if_splits)
  have "fst (GET e req w) \<noteq> forbidden"
  proof (cases "fst (consult_cache w (uuid_param req) ?s0)")
    case cNone: None
    with None have "issuance_path e req w" by (simp add: issuance_path_def)
    from GET_issuance [OF this] show ?thesis
      by (simp add: Let_def issue_not_boundary_response)
  next
    case (Some c)
    from consult_cache_response [OF this] obtain r t where "c = cached_response r t"
      by blast
    with None Some show ?thesis
      by (auto simp add: GET_def cached_response_def forbidden_def split: prod.splits)
  qed
  with nv show ?thesis by simp
qed





text \<open>The two places where a value from outside meets a constructor that can refuse it:
  a cached \<open>expiresAt\<close> that is no time value sends the request on to issuance, and an
  upstream status that a response with a body cannot carry is answered with the generic
  500.\<close>

lemma consult_cache_no_time_value:
  assumes "u \<noteq> []" and "kv s = Some k" and "\<not> get_throws k"
    and "entries k (kvKey u) = Some r" and "expiresAt r - now w > 10000"
    and "\<not> time_value (expiresAt r)"
  shows "consult_cache w (Some u) s = (None, log (KvGet (kvKey u)) s)"
  using assms by (simp add: consult_cache_def kv_get_def Let_def)

lemma issue_status_refused:
  assumes "fetch_result w = FetchResponse d" and "\<not> resp_ok d"
    and "\<not> response_init_ok (resp_status d)"
  shows "issue e w u s = (internal_server_error, log (discord_call e) s)"
  using assms by (simp add: issue_def Let_def split: outcome.splits)

lemma consult_cache_flags:
  assumes "kv s = Some k"
  shows "\<exists>k1. kv (snd (consult_cache w p s)) = Some k1 \<and>
              get_throws k1 = get_throws k \<and> put_throws k1 = put_throws k"
  using assms
  by (auto simp add: consult_cache_def kv_get_def kv_delete_def log_def Let_def
      split: option.splits outcome.splits)


text \<open>Idempotence within the validity window, from a fresh issuance: when a request with
  identifier \<open>u\<close> is issued a code and the cache write goes through, a later request with
  the same identifier, run against the cache the first one left and less than 110000 ms
  after it, is answered from the cache with the same \<open>code\<close> and \<open>expiresAt\<close>. (The store
  keeps the entry for its TTL of 120 s, which covers that window.)\<close>

lemma issued_record_served_again:
  assumes "issuance_path e req w"
    and "uuid_param req = Some u" and "u \<noteq> []"
    and "DISCORD_INVITES e = Some k" and "\<not> get_throws k" and "\<not> put_throws k"
    and "fetch_result w = FetchResponse d" and "resp_ok d"
    and "resp_json d = JsonObject (Some c)" and "c \<noteq> []"
    and "time_value (now w + 120000)"
    and "boundary e req' = None" and "uuid_param req' = Some u"
    and "now w' < now w + 110000"
  shows "fst (GET e req w) =
           \<lparr>status = 200, body = InviteBody u c (now w + 120000) False (now w)\<rparr> \<and>
         fst (GET (e\<lparr>DISCORD_INVITES := kv (snd (GET e req w))\<rparr>) req' w') =
           \<lparr>status = 200, body = InviteBody u c (now w + 120000) True (now w')\<rparr>"
proof -
  let ?s0 = "\<lparr>kv = DISCORD_INVITES e, trace = []\<rparr>"
  let ?s1 = "snd (consult_cache w (uuid_param req) ?s0)"
  let ?s2 = "snd (resolve_uuid w (uuid_param req) ?s1)"
  let ?v = "\<lparr>uuid = u, code = c, expiresAt = now w + 120000, createdAt = now w\<rparr>"
  have id: "issued_uuid w req = u"
    using assms(2,3) by (simp add: issued_uuid_def)
  have run: "GET e req w =
      (\<lparr>status = 200, body = InviteBody u c (now w + 120000) False (now w)\<rparr>,
       store_invite u ?v (now w) (log (discord_call e) ?s2))"
    using GET_issuance [OF assms(1)] issue_success [OF assms(7-11)] id
    by (simp add: Let_def)
  obtain k1 where k1: "kv ?s1 = Some k1" "get_throws k1 = get_throws k"
      "put_throws k1 = put_throws k"
    using consult_cache_flags [of ?s0 k w "uuid_param req"] assms(4) by auto
  have s2: "kv (log (discord_call e) ?s2) = Some k1"
    using k1(1) by (simp add: resolve_uuid_snd log_def)
  let ?k2 = "k1\<lparr>entries := (entries k1)(kvKey u \<mapsto> ?v)\<rparr>"
  have after: "kv (snd (GET e req w)) = Some ?k2"
    using s2 k1(3) assms(6)
    by (simp add: run store_invite_def kv_put_def log_def Let_def)
  have "boundary (e\<lparr>DISCORD_INVITES := Some ?k2\<rparr>) req' = None"
    using assms(12) by (simp add: boundary_binding)
  moreover have "consult_cache w' (Some u) \<lparr>kv = Some ?k2, trace = []\<rparr> =
      (Some (cached_response ?v (now w')), log (KvGet (kvKey u)) \<lparr>kv = Some ?k2, trace = []\<rparr>)"
    using assms(3,5,11,14) k1(2)
      consult_cache_hit [of u "\<lparr>kv = Some ?k2, trace = []\<rparr>" ?k2 ?v w']
    by simp
  ultimately have "fst (GET (e\<lparr>DISCORD_INVITES := Some ?k2\<rparr>) req' w') =
      cached_response ?v (now w')"
    using assms(13) by (simp add: GET_def)
  then have second: "fst (GET (e\<lparr>DISCORD_INVITES := kv (snd (GET e req w))\<rparr>) req' w') =
      \<lparr>status = 200, body = InviteBody u c (now w + 120000) True (now w')\<rparr>"
    unfolding after by (simp add: cached_response_def)
  have first: "fst (GET e req w) =
      \<lparr>status = 200, body = InviteBody u c (now w + 120000) False (now w)\<rparr>"
    by (simp add: run)
  from first second show ?thesis ..
qed

subsection \<open>Claims\<close>

text \<open>
  The invite issuer of the specification sits behind the boundary filters: its claims
  (C1 to C6) are stated for requests that pass them, \<open>boundary e req = None\<close>, and
  \<open>issuance_path\<close> contains that condition. A client identifier counts as supplied when the
  \<open>uuid\<close> parameter is a non-empty string, which is how line 71 and line 112 read it.
  Timestamps are time values: the hypotheses \<open>time_value (expiresAt r)\<close> and
  \<open>time_value (now w + 120000)\<close> say so for the cached record and for the clock.
\<close>

text \<open>
  C1. A request that reaches line 64, supplies a non-empty \<open>uuid\<close>, and for which the
  cache returns a record with \<open>expiresAt - now > 10000\<close> (\<open>expiresAt\<close> being a time
  value, as line 84 formats it as a date), is answered with status 200,
  that record's \<open>uuid\<close>, \<open>code\<close> and \<open>expiresAt\<close> unchanged and \<open>cached = true\<close>; the only
  external call is the \<open>KV.get\<close> (Discord is not called) and the cache is left as it was.
  Hence a second request with the same identifier, made against the cache the first one
  left and while the record still has more than 10000 ms, gets the same \<open>code\<close> and
  \<open>expiresAt\<close>.
\<close>

theorem cached_record_returned:
  assumes "boundary e req = None"
    and "uuid_param req = Some u" and "u \<noteq> []"
    and "DISCORD_INVITES e = Some k" and "\<not> get_throws k"
    and "entries k (kvKey u) = Some r"
    and "expiresAt r - now w > 10000"
    and "boundary e req' = None" and "uuid_param req' = Some u"
    and "expiresAt r - now w' > 10000"
    and "time_value (expiresAt r)"
  shows "GET e req w =
           (\<lparr>status = 200,
             body = InviteBody (uuid r) (code r) (expiresAt r) True (now w)\<rparr>,
            \<lparr>kv = Some k, trace = [KvGet (kvKey u)]\<rparr>) \<and>
         fst (GET (e\<lparr>DISCORD_INVITES := kv (snd (GET e req w))\<rparr>) req' w') =
           \<lparr>status = 200,
            body = InviteBody (uuid r) (code r) (expiresAt r) True (now w')\<rparr>"
proof -
  have first: "GET e req w =
      (cached_response r (now w), \<lparr>kv = Some k, trace = [KvGet (kvKey u)]\<rparr>)"
    using assms(1-7,11) by (simp add: GET_def consult_cache_hit log_def)
  have "boundary (e\<lparr>DISCORD_INVITES := Some k\<rparr>) req' = None"
    using assms(8) by (simp add: boundary_binding)
  then have "fst (GET (e\<lparr>DISCORD_INVITES := Some k\<rparr>) req' w') = cached_response r (now w')"
    using assms(3,5,6,9,10,11) by (simp add: GET_def consult_cache_hit)
  with first show ?thesis by (simp add: cached_response_def)
qed

theorem cached_record_returned_witness:
  "GET (site_env (Some healthy_kv)) site_request (at_time 1000 FetchThrows) =
     (\<lparr>status = 200, body = InviteBody ''u-1'' ''abc'' 100000 True 1000\<rparr>,
      \<lparr>kv = Some healthy_kv, trace = [KvGet ''discord:invite:u-1'']\<rparr>) \<and>
   fst (GET (site_env (Some healthy_kv)) site_request (at_time 89999 FetchThrows)) =
     \<lparr>status = 200, body = InviteBody ''u-1'' ''abc'' 100000 True 89999\<rparr>"
  using cached_record_returned [of "site_env (Some healthy_kv)" site_request "''u-1''"
      healthy_kv old_invite "at_time 1000 FetchThrows" site_request "at_time 89999 FetchThrows"]
  by (auto simp add: kvKey_def time_value_def)



text \<open>
  C3. For a request that reaches line 64 without a (non-empty) \<open>uuid\<close>, the first two
  external calls are the generation of a random identifier and the Discord call, and every
  call of the run is one of these or a \<open>KV.put\<close> under the generated identifier: no
  \<open>KV.get\<close> and no \<open>KV.delete\<close> happens. For every request whatsoever, a \<open>KV.get\<close> in
  the run is on the key of a non-empty \<open>uuid\<close> the caller supplied. (That the generated
  identifier is new is a property of \<open>crypto.randomUUID\<close>, which the model takes as given.)
\<close>

theorem no_identifier_no_cache_read:
  "(boundary e req = None \<and> \<not> truthy (uuid_param req) \<longrightarrow>
      take 2 (trace (snd (GET e req w))) = [RandomUUID, discord_call e] \<and>
      (\<forall>ev \<in> set (trace (snd (GET e req w))).
          ev = RandomUUID \<or> ev = discord_call e \<or>
          (\<exists>v. ev = KvPut (kvKey (randomUUID w)) v 120 \<and> uuid v = randomUUID w))) \<and>
   (\<forall>key. KvGet key \<in> set (trace (snd (GET e req w))) \<longrightarrow>
      (\<exists>u. uuid_param req = Some u \<and> u \<noteq> [] \<and> key = kvKey u))"
proof (intro conjI impI allI)
  let ?s0 = "\<lparr>kv = DISCORD_INVITES e, trace = []\<rparr>"
  assume a: "boundary e req = None \<and> \<not> truthy (uuid_param req)"
  then have path: "issuance_path e req w"
    by (simp add: issuance_path_def consult_cache_not_supplied)
  have id: "issued_uuid w req = randomUUID w"
    using a by (cases "uuid_param req") (auto simp add: issued_uuid_def)
  have run: "GET e req w = issue e w (randomUUID w) (log RandomUUID ?s0)"
    using GET_issuance [OF path] a id
    by (simp add: consult_cache_not_supplied resolve_uuid_snd)
  obtain evs where raw:
    "trace (snd (issue e w (randomUUID w) (log RandomUUID ?s0))) =
       trace (log RandomUUID ?s0) @ discord_call e # evs"
    "\<forall>ev \<in> set evs. \<exists>v. ev = KvPut (kvKey (randomUUID w)) v 120 \<and>
        uuid v = randomUUID w \<and> createdAt v = now w \<and> expiresAt v = now w + 120000 \<and>
        kv (log RandomUUID ?s0) \<noteq> None"
    using issue_trace [of e w "randomUUID w" "log RandomUUID ?s0"] by blast
  have evs: "trace (snd (GET e req w)) = [RandomUUID, discord_call e] @ evs"
    "\<forall>ev \<in> set evs. \<exists>v. ev = KvPut (kvKey (randomUUID w)) v 120 \<and> uuid v = randomUUID w"
    using raw by (auto simp add: run log_def)
  show "take 2 (trace (snd (GET e req w))) = [RandomUUID, discord_call e]"
    by (simp add: evs(1))
  show "\<forall>ev \<in> set (trace (snd (GET e req w))).
          ev = RandomUUID \<or> ev = discord_call e \<or>
          (\<exists>v. ev = KvPut (kvKey (randomUUID w)) v 120 \<and> uuid v = randomUUID w)"
    using evs(2) by (auto simp add: evs(1))
next
  fix key
  let ?s0 = "\<lparr>kv = DISCORD_INVITES e, trace = []\<rparr>"
  assume g: "KvGet key \<in> set (trace (snd (GET e req w)))"
  show "\<exists>u. uuid_param req = Some u \<and> u \<noteq> [] \<and> key = kvKey u"
  proof (cases "boundary e req")
    case (Some r)
    with g show ?thesis by (simp add: GET_rejected)
  next
    case None
    obtain r s1 where cc: "consult_cache w (uuid_param req) ?s0 = (r, s1)"
      by (cases "consult_cache w (uuid_param req) ?s0")
    from consult_cache_effect [OF cc]
    obtain evs where evs: "trace s1 = evs"
      "\<forall>ev \<in> set evs. \<exists>u. uuid_param req = Some u \<and> u \<noteq> [] \<and>
          (ev = KvGet (kvKey u) \<or> ev = KvDelete (kvKey u))"
      by auto
    show ?thesis
    proof (cases r)
      case (Some c)
      with None cc g evs show ?thesis by (auto simp add: GET_def)
    next
      case rNone: None
      let ?s2 = "snd (resolve_uuid w (uuid_param req) s1)"
      have run: "GET e req w = issue e w (issued_uuid w req) ?s2"
        using GET_issuance [of e req w] None cc rNone by (simp add: issuance_path_def)
      obtain evs' where raw:
        "trace (snd (issue e w (issued_uuid w req) ?s2)) = trace ?s2 @ discord_call e # evs'"
        "\<forall>ev \<in> set evs'. \<exists>v. ev = KvPut (kvKey (issued_uuid w req)) v 120 \<and>
            uuid v = issued_uuid w req \<and> createdAt v = now w \<and>
            expiresAt v = now w + 120000 \<and> kv ?s2 \<noteq> None"
        using issue_trace [of e w "issued_uuid w req" ?s2] by blast
      have evs': "trace (snd (GET e req w)) = trace ?s2 @ discord_call e # evs'"
        "\<forall>ev \<in> set evs'. \<exists>v. ev = KvPut (kvKey (issued_uuid w req)) v 120"
        using raw by (auto simp add: run)
      have "KvGet key \<in> set (trace s1)"
        using g evs' by (auto simp add: resolve_uuid_snd log_def discord_call_def split: if_splits)
      with evs show ?thesis by auto
    qed
  qed
qed

theorem no_identifier_no_cache_read_witness:
  "trace (snd (GET (site_env (Some healthy_kv)) (site_request\<lparr>uuid_param := None\<rparr>)
                 (at_time 1000 (discord_issues ''xyz'')))) =
     [RandomUUID, DiscordCreateInvite ''42'' ''token'',
      KvPut ''discord:invite:r-9''
        \<lparr>uuid = ''r-9'', code = ''xyz'', expiresAt = 121000, createdAt = 1000\<rparr> 120] \<and>
   take 2 (trace (snd (GET (site_env (Some healthy_kv)) (site_request\<lparr>uuid_param := None\<rparr>)
                 (at_time 1000 (discord_issues ''xyz''))))) =
     [RandomUUID, discord_call (site_env (Some healthy_kv))] \<and>
   KvGet ''discord:invite:u-1'' \<in>
     set (trace (snd (GET (site_env (Some healthy_kv)) site_request
                        (at_time 1000 (discord_issues ''xyz''))))) \<and>
   uuid_param site_request = Some ''u-1''"
  using no_identifier_no_cache_read [of "site_env (Some healthy_kv)"
      "site_request\<lparr>uuid_param := None\<rparr>" "at_time 1000 (discord_issues ''xyz'')"]
    no_identifier_no_cache_read [of "site_env (Some healthy_kv)"
      site_request "at_time 1000 (discord_issues ''xyz'')"]
  by (simp add: GET_def consult_cache_def kv_get_def log_def issue_def resolve_uuid_def
      store_invite_def kv_put_def discord_issues_def discord_call_def kvKey_def time_value_def Let_def)

text \<open>
  C4. For a request on the issuance path, when Discord answers with a non-success status
  (one that a response with a body can carry), the response has that status and carries the
  text of Discord's answer as \<open>details\<close>; the run contains no \<open>KV.put\<close>, and the cache is
  as it was before the request, or as it was with the request's stale entry deleted.
\<close>

theorem upstream_failure_propagated:
  assumes "issuance_path e req w"
    and "fetch_result w = FetchResponse d" and "\<not> resp_ok d"
    and "resp_text d = Returns detail"
    and "response_init_ok (resp_status d)"
  shows "fst (GET e req w) =
           \<lparr>status = resp_status d,
            body = ErrorBody ''Failed to generate invite'' (Some detail)\<rparr> \<and>
         (\<forall>key v t. KvPut key v t \<notin> set (trace (snd (GET e req w)))) \<and>
         (kv (snd (GET e req w)) = DISCORD_INVITES e \<or>
          (\<exists>k u. DISCORD_INVITES e = Some k \<and> uuid_param req = Some u \<and>
                 kv (snd (GET e req w)) =
                   Some (k\<lparr>entries := (entries k)(kvKey u := None)\<rparr>)))"
proof -
  let ?s1 = "snd (consult_cache w (uuid_param req) \<lparr>kv = DISCORD_INVITES e, trace = []\<rparr>)"
  let ?s2 = "snd (resolve_uuid w (uuid_param req) ?s1)"
  have run: "GET e req w = issue e w (issued_uuid w req) ?s2"
    using GET_issuance [OF assms(1)] by (simp add: Let_def)
  have resp: "fst (issue e w (issued_uuid w req) ?s2) =
      upstream_failure (resp_status d) detail"
    using assms(2-5) by (simp add: issue_def Let_def)
  have st: "snd (issue e w (issued_uuid w req) ?s2) = log (discord_call e) ?s2"
    using issue_no_store [of w d e "issued_uuid w req" ?s2] assms(2,3) by simp
  have noput: "\<forall>key v t. KvPut key v t \<notin> set (trace (log (discord_call e) ?s2))"
    using consult_cache_no_put [of _ _ _ w "uuid_param req" "DISCORD_INVITES e"]
    by (auto simp add: resolve_uuid_snd log_def discord_call_def)
  have store: "kv (log (discord_call e) ?s2) = kv ?s2"
    by (simp add: log_def)
  show ?thesis
    using resp noput issuance_path_store [OF assms(1)]
    by (simp add: run st store upstream_failure_def)
qed

theorem upstream_failure_propagated_witness:
  "GET (site_env (Some healthy_kv)) site_request
       (at_time 95000 (FetchResponse discord_rate_limited)) =
     (\<lparr>status = 429, body = ErrorBody ''Failed to generate invite'' (Some ''rate limited'')\<rparr>,
      \<lparr>kv = Some (healthy_kv\<lparr>entries := one_entry(''discord:invite:u-1'' := None)\<rparr>),
       trace = [KvGet ''discord:invite:u-1'', KvDelete ''discord:invite:u-1'',
                DiscordCreateInvite ''42'' ''token'']\<rparr>) \<and>
   issuance_path (site_env (Some healthy_kv)) site_request
       (at_time 95000 (FetchResponse discord_rate_limited)) \<and>
   resp_status discord_rate_limited = 429 \<and> \<not> resp_ok discord_rate_limited \<and>
   response_init_ok 429"
  using upstream_failure_propagated [of "site_env (Some healthy_kv)" site_request
      "at_time 95000 (FetchResponse discord_rate_limited)" discord_rate_limited
      "''rate limited''"]
  by (simp add: GET_def issuance_path_def consult_cache_def kv_get_def kv_delete_def log_def
      issue_def resolve_uuid_def discord_rate_limited_def discord_call_def kvKey_def
      upstream_failure_def response_init_ok_def Let_def)


text \<open>
  C5. For a request on the issuance path, when Discord answers with success and a body
  without a \<open>code\<close> field, the response is the 500 error
  \<open>Invalid response from Discord API\<close>; the run contains no \<open>KV.put\<close>, and the cache is
  as it was before the request, or as it was with the request's stale entry deleted.
\<close>

theorem missing_code_rejected:
  assumes "issuance_path e req w"
    and "fetch_result w = FetchResponse d" and "resp_ok d"
    and "resp_json d = JsonObject None"
  shows "fst (GET e req w) =
           \<lparr>status = 500, body = ErrorBody ''Invalid response from Discord API'' None\<rparr> \<and>
         (\<forall>key v t. KvPut key v t \<notin> set (trace (snd (GET e req w)))) \<and>
         (kv (snd (GET e req w)) = DISCORD_INVITES e \<or>
          (\<exists>k u. DISCORD_INVITES e = Some k \<and> uuid_param req = Some u \<and>
                 kv (snd (GET e req w)) =
                   Some (k\<lparr>entries := (entries k)(kvKey u := None)\<rparr>)))"
proof -
  let ?s1 = "snd (consult_cache w (uuid_param req) \<lparr>kv = DISCORD_INVITES e, trace = []\<rparr>)"
  let ?s2 = "snd (resolve_uuid w (uuid_param req) ?s1)"
  have run: "GET e req w = issue e w (issued_uuid w req) ?s2"
    using GET_issuance [OF assms(1)] by (simp add: Let_def)
  have resp: "fst (issue e w (issued_uuid w req) ?s2) = invalid_upstream_response"
    using assms(2-4) by (simp add: issue_def time_value_def Let_def)
  have st: "snd (issue e w (issued_uuid w req) ?s2) = log (discord_call e) ?s2"
    using issue_no_store [of w d e "issued_uuid w req" ?s2] assms(2,4) by simp
  have noput: "\<forall>key v t. KvPut key v t \<notin> set (trace (log (discord_call e) ?s2))"
    using consult_cache_no_put [of _ _ _ w "uuid_param req" "DISCORD_INVITES e"]
    by (auto simp add: resolve_uuid_snd log_def discord_call_def)
  have store: "kv (log (discord_call e) ?s2) = kv ?s2"
    by (simp add: log_def)
  show ?thesis
    using resp noput issuance_path_store [OF assms(1)]
    by (simp add: run st store invalid_upstream_response_def)
qed

theorem missing_code_rejected_witness:
  "GET (site_env (Some healthy_kv)) (site_request\<lparr>uuid_param := Some ''u-2''\<rparr>)
       (at_time 1000 (FetchResponse discord_no_code)) =
     (\<lparr>status = 500, body = ErrorBody ''Invalid response from Discord API'' None\<rparr>,
      \<lparr>kv = Some healthy_kv,
       trace = [KvGet ''discord:invite:u-2'', DiscordCreateInvite ''42'' ''token'']\<rparr>) \<and>
   issuance_path (site_env (Some healthy_kv)) (site_request\<lparr>uuid_param := Some ''u-2''\<rparr>)
       (at_time 1000 (FetchResponse discord_no_code)) \<and>
   resp_ok discord_no_code \<and> resp_json discord_no_code = JsonObject None"
  using missing_code_rejected [of "site_env (Some healthy_kv)"
      "site_request\<lparr>uuid_param := Some ''u-2''\<rparr>"
      "at_time 1000 (FetchResponse discord_no_code)" discord_no_code]
  by (simp add: GET_def issuance_path_def consult_cache_def kv_get_def log_def
      issue_def resolve_uuid_def discord_no_code_def discord_call_def kvKey_def
      one_entry_def time_value_def Let_def)



text \<open>
  C6. When every operation of the cache raises, the response of any request is the one the
  handler gives with no cache binding at all, and the cache is left as it was: no cache fault
  reaches the caller. A request that passes the boundary filters always calls Discord, and
  when Discord issues a code (and \<open>now + 120000\<close> is a time value) it is answered with
  status 200, that code, \<open>cached = false\<close> and \<open>expiresAt = now + 120000\<close>.
\<close>

theorem cache_outage_absorbed:
  assumes "DISCORD_INVITES e = Some k"
    and "get_throws k" and "delete_throws k" and "put_throws k"
  shows "fst (GET e req w) = fst (GET (e\<lparr>DISCORD_INVITES := None\<rparr>) req w) \<and>
         kv (snd (GET e req w)) = Some k \<and>
         (boundary e req = None \<longrightarrow> discord_call e \<in> set (trace (snd (GET e req w)))) \<and>
         (boundary e req = None \<and> fetch_result w = FetchResponse d \<and> resp_ok d \<and>
          resp_json d = JsonObject (Some c) \<and> c \<noteq> [] \<and> time_value (now w + 120000) \<longrightarrow>
            fst (GET e req w) =
              \<lparr>status = 200,
               body = InviteBody (issued_uuid w req) c (now w + 120000) False (now w)\<rparr>)"
proof (cases "boundary e req")
  case (Some r)
  then show ?thesis
    using assms(1) by (simp add: GET_rejected boundary_binding)
next
  case None
  let ?e' = "e\<lparr>DISCORD_INVITES := None\<rparr>"
  let ?s0 = "\<lparr>kv = DISCORD_INVITES e, trace = []\<rparr>"
  let ?s1 = "snd (consult_cache w (uuid_param req) ?s0)"
  let ?s2 = "snd (resolve_uuid w (uuid_param req) ?s1)"
  let ?t2 = "snd (resolve_uuid w (uuid_param req) \<lparr>kv = None, trace = []\<rparr>)"
  have cc: "fst (consult_cache w (uuid_param req) ?s0) = None" "kv ?s1 = Some k"
    using consult_cache_outage [of ?s0 k w "uuid_param req"] assms(1,2) by simp_all
  then have path: "issuance_path e req w"
    using None by (simp add: issuance_path_def)
  have path': "issuance_path ?e' req w"
    using None by (simp add: issuance_path_def boundary_binding consult_cache_unbound)
  have run: "GET e req w = issue e w (issued_uuid w req) ?s2"
    using GET_issuance [OF path] by (simp add: Let_def)
  have run': "GET ?e' req w = issue ?e' w (issued_uuid w req) ?t2"
    using GET_issuance [OF path'] by (simp add: Let_def consult_cache_unbound)
  have same: "fst (GET e req w) = fst (GET ?e' req w)"
    unfolding run run' by (rule issue_response)
  have "kv ?s2 = Some k"
    using cc(2) by (simp add: resolve_uuid_snd log_def)
  then have store: "kv (snd (GET e req w)) = Some k"
    unfolding run using assms(4) by (rule issue_store_outage)
  have call: "discord_call e \<in> set (trace (snd (GET e req w)))"
    unfolding run by (rule issue_calls_discord)
  have ok: "fst (GET e req w) =
      \<lparr>status = 200, body = InviteBody (issued_uuid w req) c (now w + 120000) False (now w)\<rparr>"
    if "fetch_result w = FetchResponse d" "resp_ok d" "resp_json d = JsonObject (Some c)"
      "c \<noteq> []" "time_value (now w + 120000)"
    unfolding run using issue_success [OF that] by simp
  show ?thesis
    using same store call ok by blast
qed

theorem cache_outage_absorbed_witness:
  "GET (site_env (Some broken_kv)) site_request (at_time 95000 (discord_issues ''xyz'')) =
     (\<lparr>status = 200, body = InviteBody ''u-1'' ''xyz'' 215000 False 95000\<rparr>,
      \<lparr>kv = Some broken_kv,
       trace = [KvGet ''discord:invite:u-1'', DiscordCreateInvite ''42'' ''token'',
                KvPut ''discord:invite:u-1''
                  \<lparr>uuid = ''u-1'', code = ''xyz'', expiresAt = 215000, createdAt = 95000\<rparr>
                  120]\<rparr>) \<and>
   fst (GET (site_env None) site_request (at_time 95000 (discord_issues ''xyz''))) =
     \<lparr>status = 200, body = InviteBody ''u-1'' ''xyz'' 215000 False 95000\<rparr> \<and>
   get_throws broken_kv \<and> delete_throws broken_kv \<and> put_throws broken_kv"
  using cache_outage_absorbed [of "site_env (Some broken_kv)" broken_kv site_request
      "at_time 95000 (discord_issues ''xyz'')"
      "\<lparr>resp_ok = True, resp_status = 200, resp_text = Returns [],
        resp_json = JsonObject (Some ''xyz'')\<rparr>"
      "''xyz''"]
  by (simp add: GET_def consult_cache_def kv_get_def log_def issue_def resolve_uuid_def
      store_invite_def kv_put_def discord_issues_def discord_call_def kvKey_def
      issued_uuid_def time_value_def Let_def)


text \<open>
  C7 as stated fails: the honeypot check is the third filter, behind the origin check and
  the configuration check. A request with a filled \<open>email\<close> parameter and a foreign
  \<open>Origin\<close> header is answered with 403 \<open>Forbidden\<close>, not with 400.
\<close>

theorem honeypot_behind_origin_check:
  "email_param (site_request\<lparr>Origin := Some ''https://evil.example'',
                              email_param := Some ''a@b.c''\<rparr>) = Some ''a@b.c'' \<and>
   fst (GET (site_env (Some healthy_kv))
          (site_request\<lparr>Origin := Some ''https://evil.example'',
                         email_param := Some ''a@b.c''\<rparr>)
          (at_time 1000 (discord_issues ''xyz''))) =
     \<lparr>status = 403, body = ErrorBody ''Forbidden'' None\<rparr>"
  by (simp add: GET_def boundary_def cors_violation_def site_request_def forbidden_def)


text \<open>
  C7, amended. A request that passes the origin check, in an environment where the bot token
  and the channel id are configured, and whose \<open>email\<close> parameter is a non-empty string, is
  rejected with status 400 and \<open>Invalid request\<close>; no cache operation and no Discord call
  happens and the cache is untouched.
\<close>

theorem honeypot_rejected:
  assumes "\<not> cors_violation req" and "\<not> config_missing e"
    and "email_param req = Some v" and "v \<noteq> []"
  shows "GET e req w =
           (\<lparr>status = 400, body = ErrorBody ''Invalid request'' None\<rparr>,
            \<lparr>kv = DISCORD_INVITES e, trace = []\<rparr>)"
  using assms by (simp add: GET_def boundary_def invalid_request_def)

theorem honeypot_rejected_witness:
  "\<not> cors_violation (site_request\<lparr>email_param := Some ''a@b.c''\<rparr>) \<and>
   \<not> config_missing (site_env (Some healthy_kv)) \<and>
   GET (site_env (Some healthy_kv)) (site_request\<lparr>email_param := Some ''a@b.c''\<rparr>)
       (at_time 1000 (discord_issues ''xyz'')) =
     (\<lparr>status = 400, body = ErrorBody ''Invalid request'' None\<rparr>,
      \<lparr>kv = Some healthy_kv, trace = []\<rparr>)"
proof -
  have origin: "\<not> cors_violation (site_request\<lparr>email_param := Some ''a@b.c''\<rparr>)"
    by (simp add: site_request_def cors_violation_def startsWith_def)
  have config: "\<not> config_missing (site_env (Some healthy_kv))"
    by simp
  show ?thesis
    using origin config
      honeypot_rejected [OF origin config, of "''a@b.c''" "at_time 1000 (discord_issues ''xyz'')"]
    by (simp add: site_request_def)
qed

text \<open>
  C8. Every record the handler writes to the cache (every \<open>KV.put\<close> of a run) has
  \<open>createdAt = now\<close> and \<open>expiresAt = createdAt + 120000\<close>, hence
  \<open>expiresAt > createdAt\<close>, both from the one timestamp of line 64; it is written under the
  key of its own \<open>uuid\<close> with a TTL of \<open>(expiresAt - now) div 1000\<close> seconds, the remaining
  seconds rounded down, which is 120; and when the put does not raise, the cache holds
  exactly that record under the key afterwards.
\<close>

theorem stored_record_invariant:
  assumes "KvPut key v t \<in> set (trace (snd (GET e req w)))"
  shows "createdAt v = now w \<and> expiresAt v = createdAt v + 120000 \<and>
         createdAt v < expiresAt v \<and>
         t = (expiresAt v - now w) div 1000 \<and> t = 120 \<and>
         key = kvKey (uuid v) \<and>
         (\<forall>k'. kv (snd (GET e req w)) = Some k' \<and> \<not> put_throws k'
                 \<longrightarrow> entries k' key = Some v)"
proof -
  let ?s0 = "\<lparr>kv = DISCORD_INVITES e, trace = []\<rparr>"
  let ?s1 = "snd (consult_cache w (uuid_param req) ?s0)"
  let ?s2 = "snd (resolve_uuid w (uuid_param req) ?s1)"
  have no1: "KvPut key v t \<notin> set (trace ?s1)"
    by (rule consult_cache_no_put)
  have path: "issuance_path e req w"
  proof (rule ccontr)
    assume "\<not> issuance_path e req w"
    from GET_not_issuance [OF this]
    have "trace (snd (GET e req w)) = [] \<or> trace (snd (GET e req w)) = trace ?s1"
      by auto
    with assms no1 show False by auto
  qed
  have run: "GET e req w = issue e w (issued_uuid w req) ?s2"
    using GET_issuance [OF path] by (simp add: Let_def)
  have no2: "KvPut key v t \<notin> set (trace ?s2)"
    using no1 by (simp add: resolve_uuid_snd log_def)
  from issue_put [OF assms [unfolded run] no2] show ?thesis
    by (auto simp add: run)
qed

theorem stored_record_invariant_witness:
  "KvPut ''discord:invite:u-1''
     \<lparr>uuid = ''u-1'', code = ''xyz'', expiresAt = 215000, createdAt = 95000\<rparr> 120
     \<in> set (trace (snd (GET (site_env (Some healthy_kv)) site_request
                           (at_time 95000 (discord_issues ''xyz''))))) \<and>
   (95000::int) < 215000 \<and> (215000 - 95000) div 1000 = (120::int) \<and>
   (\<exists>k'. kv (snd (GET (site_env (Some healthy_kv)) site_request
                       (at_time 95000 (discord_issues ''xyz'')))) = Some k' \<and>
          \<not> put_throws k' \<and>
          entries k' ''discord:invite:u-1'' =
            Some \<lparr>uuid = ''u-1'', code = ''xyz'', expiresAt = 215000, createdAt = 95000\<rparr>)"
proof -
  let ?run = "GET (site_env (Some healthy_kv)) site_request
                (at_time 95000 (discord_issues ''xyz''))"
  let ?new = "\<lparr>uuid = ''u-1'', code = ''xyz'', expiresAt = 215000, createdAt = 95000\<rparr>"
  have put: "KvPut ''discord:invite:u-1'' ?new 120 \<in> set (trace (snd ?run))"
    by (simp add: GET_def consult_cache_def kv_get_def kv_delete_def log_def issue_def
        resolve_uuid_def store_invite_def kv_put_def discord_issues_def kvKey_def time_value_def
        Let_def)
  have store: "kv (snd ?run) =
      Some (healthy_kv\<lparr>entries := one_entry(''discord:invite:u-1'' \<mapsto> ?new)\<rparr>)"
    by (simp add: GET_def consult_cache_def kv_get_def kv_delete_def log_def issue_def
        resolve_uuid_def store_invite_def kv_put_def discord_issues_def kvKey_def time_value_def
        Let_def)
  have flag: "\<not> put_throws (healthy_kv\<lparr>entries := one_entry(''discord:invite:u-1'' \<mapsto> ?new)\<rparr>)"
    by simp
  from stored_record_invariant [OF put] store flag
  have "entries (healthy_kv\<lparr>entries := one_entry(''discord:invite:u-1'' \<mapsto> ?new)\<rparr>)
          ''discord:invite:u-1'' = Some ?new"
    by blast
  with put store flag show ?thesis
    by simp
qed

text \<open>
  C9. A request with neither an \<open>Origin\<close> nor a \<open>Referer\<close> header passes the CORS filter and
  is not answered with the 403 \<open>Forbidden\<close> response. That response is returned exactly
  when a non-empty \<open>Origin\<close> header differs from the origin of the request URL, or a
  non-empty \<open>Referer\<close> header does not start with it.
\<close>

theorem cors_filter:
  "(Origin req = None \<and> Referer req = None \<longrightarrow>
      \<not> cors_violation req \<and>
      fst (GET e req w) \<noteq> \<lparr>status = 403, body = ErrorBody ''Forbidden'' None\<rparr>) \<and>
   (fst (GET e req w) = \<lparr>status = 403, body = ErrorBody ''Forbidden'' None\<rparr> \<longleftrightarrow>
      (\<exists>origin. Origin req = Some origin \<and> origin \<noteq> [] \<and> origin \<noteq> url_origin req) \<or>
      (\<exists>referer. Referer req = Some referer \<and> referer \<noteq> [] \<and>
                 \<not> startsWith referer (url_origin req)))"
proof -
  have "cors_violation req \<longleftrightarrow>
      (\<exists>origin. Origin req = Some origin \<and> origin \<noteq> [] \<and> origin \<noteq> url_origin req) \<or>
      (\<exists>referer. Referer req = Some referer \<and> referer \<noteq> [] \<and>
                 \<not> startsWith referer (url_origin req))"
    by (cases "Origin req"; cases "Referer req") (auto simp add: cors_violation_def)
  then show ?thesis
    using GET_forbidden_iff [of e req w] by (auto simp add: forbidden_def)
qed

theorem cors_filter_witness:
  "fst (GET (site_env None) (site_request\<lparr>Origin := None, Referer := None\<rparr>)
          (at_time 1000 (discord_issues ''xyz''))) =
     \<lparr>status = 200, body = InviteBody ''u-1'' ''xyz'' 121000 False 1000\<rparr> \<and>
   fst (GET (site_env None) (site_request\<lparr>Origin := Some ''https://evil.example''\<rparr>)
          (at_time 1000 (discord_issues ''xyz''))) =
     \<lparr>status = 403, body = ErrorBody ''Forbidden'' None\<rparr> \<and>
   fst (GET (site_env None) (site_request\<lparr>Origin := None, Referer := None\<rparr>)
          (at_time 1000 (discord_issues ''xyz''))) \<noteq>
     \<lparr>status = 403, body = ErrorBody ''Forbidden'' None\<rparr>"
  using cors_filter [of "site_request\<lparr>Origin := None, Referer := None\<rparr>" "site_env None"
      "at_time 1000 (discord_issues ''xyz'')"]
    cors_filter [of "site_request\<lparr>Origin := Some ''https://evil.example''\<rparr>" "site_env None"
      "at_time 1000 (discord_issues ''xyz'')"]
  by (simp add: GET_def boundary_def cors_violation_def startsWith_def bot_user_agent_def
      botPatterns_def test_i_def toLowerASCII_def site_request_def consult_cache_def
      resolve_uuid_def issue_def store_invite_def discord_issues_def log_def forbidden_def
      time_value_def Let_def)


text \<open>
  C10. With no cache binding, the 500 response \<open>Missing Discord bot configuration\<close> is
  returned exactly when the request passes the origin check and the bot token or the channel
  id is missing (or empty): the absent binding never causes it. The run makes no cache call
  (only the generation of an identifier and the Discord call can occur), and a request that
  passes the boundary filters and for which Discord issues a code (with \<open>now + 120000\<close> a
  time value) is answered with status 200, that code, \<open>cached = false\<close> and
  \<open>expiresAt = now + 120000\<close>.
\<close>

theorem no_cache_binding:
  assumes "DISCORD_INVITES e = None"
  shows "(fst (GET e req w) =
            \<lparr>status = 500, body = ErrorBody ''Missing Discord bot configuration'' None\<rparr> \<longleftrightarrow>
          \<not> cors_violation req \<and>
          (\<not> truthy (DISCORD_BOT_TOKEN e) \<or> \<not> truthy (DISCORD_CHANNEL_ID e))) \<and>
         (\<forall>ev \<in> set (trace (snd (GET e req w))). ev = RandomUUID \<or> ev = discord_call e) \<and>
         kv (snd (GET e req w)) = None \<and>
         (boundary e req = None \<and> fetch_result w = FetchResponse d \<and> resp_ok d \<and>
          resp_json d = JsonObject (Some c) \<and> c \<noteq> [] \<and> time_value (now w + 120000) \<longrightarrow>
            GET e req w =
              (\<lparr>status = 200,
                body = InviteBody (issued_uuid w req) c (now w + 120000) False (now w)\<rparr>,
               \<lparr>kv = None,
                trace = (if truthy (uuid_param req) then [] else [RandomUUID])
                          @ [discord_call e]\<rparr>))"
proof (cases "boundary e req")
  case (Some r)
  then show ?thesis
    using assms
    by (auto simp add: GET_rejected boundary_def config_missing_def forbidden_def
        missing_configuration_def invalid_request_def split: if_splits)
next
  case None
  let ?s0 = "\<lparr>kv = None, trace = []\<rparr>"
  let ?s2 = "snd (resolve_uuid w (uuid_param req) ?s0)"
  have path: "issuance_path e req w"
    using None assms by (simp add: issuance_path_def consult_cache_unbound)
  have run: "GET e req w = issue e w (issued_uuid w req) ?s2"
    using GET_issuance [OF path] assms by (simp add: Let_def consult_cache_unbound)
  have s2: "?s2 = \<lparr>kv = None, trace = (if truthy (uuid_param req) then [] else [RandomUUID])\<rparr>"
    by (simp add: resolve_uuid_snd log_def)
  have config: "\<not> config_missing e"
    using None by (simp add: boundary_def split: if_splits)
  have a: "fst (GET e req w) \<noteq> missing_configuration"
    by (simp add: run issue_not_boundary_response)
  obtain evs where evs:
    "trace (snd (issue e w (issued_uuid w req) ?s2)) = trace ?s2 @ discord_call e # evs"
    "\<forall>ev \<in> set evs. \<exists>v. ev = KvPut (kvKey (issued_uuid w req)) v 120 \<and>
        uuid v = issued_uuid w req \<and> createdAt v = now w \<and>
        expiresAt v = now w + 120000 \<and> kv ?s2 \<noteq> None"
    using issue_trace [of e w "issued_uuid w req" ?s2] by blast
  from evs(2) have "evs = []"
    by (cases evs) (auto simp add: s2)
  with evs(1) have b: "trace (snd (GET e req w)) =
      (if truthy (uuid_param req) then [] else [RandomUUID]) @ [discord_call e]"
    by (simp add: run s2)
  have c: "kv (snd (GET e req w)) = None"
    using issue_state [of e w "issued_uuid w req" ?s2]
    by (auto simp add: run s2 store_invite_def log_def)
  have ok: "fst (GET e req w) =
      \<lparr>status = 200, body = InviteBody (issued_uuid w req) c (now w + 120000) False (now w)\<rparr>"
    if "fetch_result w = FetchResponse d" "resp_ok d" "resp_json d = JsonObject (Some c)"
      "c \<noteq> []" "time_value (now w + 120000)"
    unfolding run using issue_success [OF that] by simp
  show ?thesis
  proof (intro conjI impI)
    show "(fst (GET e req w) =
            \<lparr>status = 500, body = ErrorBody ''Missing Discord bot configuration'' None\<rparr>) =
          (\<not> cors_violation req \<and>
           (\<not> truthy (DISCORD_BOT_TOKEN e) \<or> \<not> truthy (DISCORD_CHANNEL_ID e)))"
      using a config by (simp add: missing_configuration_def config_missing_def)
    show "\<forall>ev \<in> set (trace (snd (GET e req w))). ev = RandomUUID \<or> ev = discord_call e"
      by (simp add: b)
    show "kv (snd (GET e req w)) = None" by (rule c)
  next
    assume h: "boundary e req = None \<and> fetch_result w = FetchResponse d \<and> resp_ok d \<and>
      resp_json d = JsonObject (Some c) \<and> c \<noteq> [] \<and> time_value (now w + 120000)"
    then have "fst (GET e req w) =
      \<lparr>status = 200, body = InviteBody (issued_uuid w req) c (now w + 120000) False (now w)\<rparr>"
      using ok by blast
    with b c show "GET e req w =
        (\<lparr>status = 200,
          body = InviteBody (issued_uuid w req) c (now w + 120000) False (now w)\<rparr>,
         \<lparr>kv = None,
          trace = (if truthy (uuid_param req) then [] else [RandomUUID])
                    @ [discord_call e]\<rparr>)"
      by (intro prod_eqI state.equality) simp_all
  qed
qed

theorem no_cache_binding_witness:
  "GET (site_env None) site_request (at_time 1000 (discord_issues ''xyz'')) =
     (\<lparr>status = 200, body = InviteBody ''u-1'' ''xyz'' 121000 False 1000\<rparr>,
      \<lparr>kv = None, trace = [DiscordCreateInvite ''42'' ''token'']\<rparr>) \<and>
   fst (GET \<lparr>DISCORD_BOT_TOKEN = None, DISCORD_CHANNEL_ID = Some ''42'',
             DISCORD_INVITES = None\<rparr>
          site_request (at_time 1000 (discord_issues ''xyz''))) =
     \<lparr>status = 500, body = ErrorBody ''Missing Discord bot configuration'' None\<rparr>"
proof -
  have passes: "boundary (site_env None) site_request = None" by simp
  have origin: "\<not> cors_violation site_request"
    using site_request_same_origin [of "Some ''u-1''"] by (simp add: site_request_def)
  show ?thesis
    using passes origin
      no_cache_binding [of "site_env None" site_request
        "at_time 1000 (discord_issues ''xyz'')"
        "\<lparr>resp_ok = True, resp_status = 200, resp_text = Returns [],
          resp_json = JsonObject (Some ''xyz'')\<rparr>" "''xyz''"]
      no_cache_binding [of "\<lparr>DISCORD_BOT_TOKEN = None, DISCORD_CHANNEL_ID = Some ''42'',
          DISCORD_INVITES = None\<rparr>" site_request "at_time 1000 (discord_issues ''xyz'')"]
    by (simp add: discord_issues_def issued_uuid_def discord_call_def time_value_def)
qed

end
